theory Spec2Isabelle
  imports Complex_Main
begin

section \<open>Values handled by \<open>src/lib/fema-shelters.ts\<close>\<close>

text \<open>
  The function works on what \<open>res.json()\<close> returns: a parsed JSON value. A parsed object
  has one value per key; it is kept as an association list that is read with \<open>map_of\<close>.
  A JSON number is a finite double, which is a real number; the code only passes
  numbers on and never computes with them. The JavaScript value \<open>undefined\<close> is not a
  JSON value: a value that may be \<open>undefined\<close> has type \<open>jvalue option\<close>, with
  \<open>None\<close> for \<open>undefined\<close>.
\<close>

datatype jvalue =
    JNull
  | JBool bool
  | JNumber real
  | JString string
  | JArray "jvalue list"
  | JObject "(string \<times> jvalue) list"

text \<open>
  What the call can throw: \<open>Error msg\<close> is \<open>throw new Error(msg)\<close>, \<open>TypeError\<close> is the
  engine's error on reading a property of \<open>null\<close> or \<open>undefined\<close> (or calling a method
  that is not there), \<open>Rejected\<close> is a rejection of \<open>fetch\<close> or of \<open>res.json()\<close>, which
  the function does not catch.
\<close>

datatype error = Error string | TypeError | Rejected string

text \<open>
  Own-property lookup. Only objects made by the JSON parser have the properties the code
  reads (\<open>features\<close>, \<open>geometry\<close>, \<open>type\<close>, \<open>coordinates\<close>, \<open>properties\<close> and the
  shelter fields): none of these names is a built-in property of a boolean, a number, a
  string or an array, where the read gives \<open>undefined\<close>.
\<close>

definition ownProp :: "jvalue \<Rightarrow> string \<Rightarrow> jvalue option" where
  "ownProp v k = (case v of JObject kvs \<Rightarrow> map_of kvs k | _ \<Rightarrow> None)"

text \<open>The read \<open>v.k\<close>: a TypeError on \<open>null\<close> and \<open>undefined\<close>.\<close>

definition getProp :: "jvalue option \<Rightarrow> string \<Rightarrow> error + jvalue option" where
  "getProp v k =
     (case v of
        None \<Rightarrow> Inl TypeError
      | Some x \<Rightarrow> if x = JNull then Inl TypeError else Inr (ownProp x k))"

text \<open>The optional read \<open>v?.k\<close>: \<open>undefined\<close> on \<open>null\<close> and \<open>undefined\<close>.\<close>

definition getPropOpt :: "jvalue option \<Rightarrow> string \<Rightarrow> jvalue option" where
  "getPropOpt v k =
     (case v of
        None \<Rightarrow> None
      | Some x \<Rightarrow> if x = JNull then None else ownProp x k)"

text \<open>\<open>a ?? b\<close>, where \<open>b\<close> is a literal in every use.\<close>

definition coalesce :: "jvalue option \<Rightarrow> jvalue \<Rightarrow> jvalue" where
  "coalesce a b = (case a of None \<Rightarrow> b | Some x \<Rightarrow> if x = JNull then b else x)"

text \<open>Truthiness, as \<open>!v\<close> sees it.\<close>

definition truthy :: "jvalue option \<Rightarrow> bool" where
  "truthy v =
     (case v of
        None \<Rightarrow> False
      | Some JNull \<Rightarrow> False
      | Some (JBool b) \<Rightarrow> b
      | Some (JNumber x) \<Rightarrow> x \<noteq> 0
      | Some (JString s) \<Rightarrow> s \<noteq> []
      | Some (JArray xs) \<Rightarrow> True
      | Some (JObject kvs) \<Rightarrow> True)"

definition isArray :: "jvalue option \<Rightarrow> bool" where
  "isArray v = (case v of Some (JArray xs) \<Rightarrow> True | _ \<Rightarrow> False)"

definition andThen :: "error + 'a \<Rightarrow> ('a \<Rightarrow> error + 'b) \<Rightarrow> error + 'b" where
  "andThen m k = (case m of Inl e \<Rightarrow> Inl e | Inr x \<Rightarrow> k x)"

section \<open>The output record\<close>

text \<open>
  The type \<open>Shelter\<close>. The callback is typed \<open>(f: any)\<close>, so a field holds whatever the
  feed gave: the fields read from the feed are JSON values here (\<open>shelter_id\<close> may also
  be \<open>undefined\<close>); \<open>status\<close>, \<open>source\<close> and \<open>last_updated\<close> are strings the code makes.
\<close>

record Shelter =
  shelter_id :: "jvalue option"
  name :: jvalue
  address :: jvalue
  city :: jvalue
  state :: jvalue
  zip_code :: jvalue
  status :: string
  latitude :: jvalue
  longitude :: jvalue
  total_population :: jvalue
  ada_compliant :: jvalue
  wheelchair_accessible :: jvalue
  pet_accommodations :: jvalue
  source :: string
  last_updated :: string

text \<open>What the function reads of the response of \<open>fetch\<close>.\<close>

record Response =
  ok :: bool
  statusText :: string
  json :: "error + jvalue"

section \<open>fetchFEMAShelters\<close>

text \<open>The filter callback \<open>(f) => f.geometry?.type === 'Point'\<close>.\<close>

definition isPointFeature :: "jvalue \<Rightarrow> error + bool" where
  "isPointFeature f =
     andThen (getProp (Some f) ''geometry'')
       (\<lambda>g. Inr (getPropOpt g ''type'' = Some (JString ''Point'')))"

text \<open>
  The object literal of the map callback. \<open>p\<close> is a parsed value that nothing changes,
  so the two reads of \<open>p.shelter_status\<close> and of \<open>p.total_population\<close> are one read each.
\<close>

definition shelterLiteral :: "string \<Rightarrow> jvalue \<Rightarrow> jvalue \<Rightarrow> jvalue \<Rightarrow> error + Shelter" where
  "shelterLiteral now p lon lat =
     andThen (getProp (Some p) ''shelter_id'') (\<lambda>v_id.
     andThen (getProp (Some p) ''shelter_name'') (\<lambda>v_name.
     andThen (getProp (Some p) ''address'') (\<lambda>v_address.
     andThen (getProp (Some p) ''city'') (\<lambda>v_city.
     andThen (getProp (Some p) ''state'') (\<lambda>v_state.
     andThen (getProp (Some p) ''zip'') (\<lambda>v_zip.
     andThen (getProp (Some p) ''shelter_status'') (\<lambda>v_status.
     andThen (getProp (Some p) ''total_population'') (\<lambda>v_pop.
     andThen (getProp (Some p) ''ada_compliant'') (\<lambda>v_ada.
     andThen (getProp (Some p) ''wheelchair_accessible'') (\<lambda>v_wheel.
     andThen (getProp (Some p) ''pet_accommodations_code'') (\<lambda>v_pet.
       Inr \<lparr> shelter_id = v_id,
             name = coalesce v_name (JString ''Unknown Shelter''),
             address = coalesce v_address (JString ''''),
             city = coalesce v_city (JString ''''),
             state = coalesce v_state (JString ''''),
             zip_code = coalesce v_zip (JString ''''),
             status =
               (if v_status = Some (JString ''OPEN'') then ''OPEN''
                else if v_status = Some (JString ''CLOSED'') then ''CLOSED''
                else ''UNKNOWN''),
             latitude = lat,
             longitude = lon,
             total_population =
               (case v_pop of Some (JNumber x) \<Rightarrow> JNumber x | _ \<Rightarrow> JNull),
             ada_compliant = coalesce v_ada JNull,
             wheelchair_accessible = coalesce v_wheel JNull,
             pet_accommodations = coalesce v_pet JNull,
             source = ''FEMA / ARC (National Shelter System)'',
             last_updated = now \<rparr>)))))))))))"

text \<open>
  The map callback. \<open>now\<close> is what \<open>new Date().toISOString()\<close> gives while the callback
  runs on this element; \<open>None\<close> is the callback's \<open>return null\<close>.
\<close>

definition toShelter :: "string \<Rightarrow> jvalue \<Rightarrow> error + Shelter option" where
  "toShelter now f =
     andThen (getProp (Some f) ''geometry'') (\<lambda>g.
     andThen (getProp g ''coordinates'') (\<lambda>coords.
     andThen (getProp (Some f) ''properties'') (\<lambda>props.
       let p = coalesce props (JObject []) in
       (case coords of
          Some (JArray cs) \<Rightarrow>
            if length cs \<noteq> 2 then Inr None
            else andThen (shelterLiteral now p (cs ! 0) (cs ! 1)) (\<lambda>s. Inr (Some s))
        | _ \<Rightarrow> Inr None))))"

text \<open>\<open>.filter(cb)\<close> with the first callback: it stops at the first exception.\<close>

fun filterPoint :: "jvalue list \<Rightarrow> error + jvalue list" where
  "filterPoint [] = Inr []"
| "filterPoint (f # fs) =
     andThen (isPointFeature f) (\<lambda>keep.
     andThen (filterPoint fs) (\<lambda>rest.
       Inr (if keep then f # rest else rest)))"

text \<open>
  \<open>.map(cb)\<close> with the second callback. The wall clock is the environment: \<open>clock k\<close> is
  the time string that \<open>new Date().toISOString()\<close> gives during the callback's run on
  element \<open>k\<close> of the array that is mapped.
\<close>

fun mapShelter :: "(nat \<Rightarrow> string) \<Rightarrow> nat \<Rightarrow> jvalue list \<Rightarrow> error + Shelter option list" where
  "mapShelter clock k [] = Inr []"
| "mapShelter clock k (f # fs) =
     andThen (toShelter (clock k) f) (\<lambda>r.
     andThen (mapShelter clock (Suc k) fs) (\<lambda>rest.
       Inr (r # rest)))"

text \<open>\<open>.filter(Boolean)\<close> on an array of records and \<open>null\<close>s: a record is truthy.\<close>

fun filterBoolean :: "Shelter option list \<Rightarrow> Shelter list" where
  "filterBoolean [] = []"
| "filterBoolean (None # rs) = filterBoolean rs"
| "filterBoolean (Some s # rs) = s # filterBoolean rs"

text \<open>The returned expression \<open>geojson.features.filter(..).map(..).filter(Boolean)\<close>.\<close>

definition normalizeFeatures :: "(nat \<Rightarrow> string) \<Rightarrow> jvalue list \<Rightarrow> error + Shelter list" where
  "normalizeFeatures clock features =
     andThen (filterPoint features) (\<lambda>points.
     andThen (mapShelter clock 0 points) (\<lambda>mapped.
       Inr (filterBoolean mapped)))"

text \<open>
  The whole function. Its argument is the outcome of \<open>await fetch(ARCGIS_SHELTERS_URL)\<close>:
  a rejection or a response.
\<close>

definition fetchFEMAShelters :: "(nat \<Rightarrow> string) \<Rightarrow> error + Response \<Rightarrow> error + Shelter list" where
  "fetchFEMAShelters clock fetched =
     andThen fetched (\<lambda>res.
       if \<not> ok res
       then Inl (Error (''Failed to fetch FEMA shelters: '' @ statusText res))
       else
         andThen (json res) (\<lambda>geojson.
           if \<not> truthy (getPropOpt (Some geojson) ''features'')
           then Inl (Error ''Invalid GeoJSON response from ArcGIS'')
           else
             andThen (getProp (Some geojson) ''features'') (\<lambda>v.
               if \<not> isArray v
               then Inl (Error ''Invalid GeoJSON response from ArcGIS'')
               else
                 andThen (getProp (Some geojson) ''features'') (\<lambda>features.
                   case features of
                     Some (JArray fs) \<Rightarrow> normalizeFeatures clock fs
                   | _ \<Rightarrow> Inl TypeError))))"

section \<open>Notions used to state the properties\<close>

text \<open>
  These definitions are not in the source; they name what the properties speak about, in
  terms of the two callbacks. \<open>keepsFeature f\<close>: the filter callback returns \<open>true\<close> on
  \<open>f\<close>. \<open>featureRecord now f\<close>: the record that the two callbacks make of the feature
  \<open>f\<close> at the time \<open>now\<close>, or \<open>None\<close> when one of them drops it. \<open>yieldsRecord f\<close>: the
  feature yields a record (the time does not matter). \<open>outputIndex fs i\<close>: the number of
  features before position \<open>i\<close> that yield a record, which is where the record of feature
  \<open>i\<close> stands in the output. \<open>recordFrom f s\<close>: \<open>s\<close> is the record of \<open>f\<close>, made at the time
  that \<open>s\<close> carries. \<open>withoutTime\<close> blanks \<open>last_updated\<close>, and \<open>timeless\<close> does so in
  every record of an outcome, leaving an error as it is. \<open>records clock k fs\<close>: the records
  of the features \<open>fs\<close>, when the first kept feature is element \<open>k\<close> of the mapped array.
\<close>

definition keepsFeature :: "jvalue \<Rightarrow> bool" where
  "keepsFeature f = (isPointFeature f = Inr True)"

definition featureRecord :: "string \<Rightarrow> jvalue \<Rightarrow> Shelter option" where
  "featureRecord now f =
     (if keepsFeature f
      then (case toShelter now f of Inr r \<Rightarrow> r | Inl e \<Rightarrow> None)
      else None)"

definition yieldsRecord :: "jvalue \<Rightarrow> bool" where
  "yieldsRecord f = (featureRecord [] f \<noteq> None)"

definition outputIndex :: "jvalue list \<Rightarrow> nat \<Rightarrow> nat" where
  "outputIndex fs i = length (filter yieldsRecord (take i fs))"

definition recordFrom :: "jvalue \<Rightarrow> Shelter \<Rightarrow> bool" where
  "recordFrom f s = (featureRecord (last_updated s) f = Some s)"

definition withoutTime :: "Shelter \<Rightarrow> Shelter" where
  "withoutTime s = s\<lparr>last_updated := []\<rparr>"

definition timeless :: "error + Shelter list \<Rightarrow> error + Shelter list" where
  "timeless r = map_sum id (map withoutTime) r"

definition records :: "(nat \<Rightarrow> string) \<Rightarrow> nat \<Rightarrow> jvalue list \<Rightarrow> Shelter list" where
  "records clock k fs =
     filterBoolean (map (\<lambda>(j, f). featureRecord (clock j) f) (enumerate k (filter keepsFeature fs)))"

section \<open>Example payloads\<close>

text \<open>
  A feature collection with a polygon, the point feature of the specification's scenario
  (with unreliable \<open>latitude\<close> and \<open>longitude\<close> properties added), a point without
  coordinates and a point whose status and population are not the expected ones; a
  feature whose coordinate pair is not numeric; a payload whose \<open>features\<close> is an object;
  a response with a failure status.
\<close>

definition exampleClock :: "nat \<Rightarrow> string" where
  "exampleClock k =
     (if k = 0 then ''2026-01-01T00:00:00.000Z'' else ''2026-01-01T00:00:00.001Z'')"

definition polygonFeature :: jvalue where
  "polygonFeature =
     JObject [(''type'', JString ''Feature''),
              (''geometry'', JObject [(''type'', JString ''Polygon''), (''coordinates'', JArray [])]),
              (''properties'', JObject [(''shelter_id'', JNumber 7)])]"

definition miamiGeometry :: jvalue where
  "miamiGeometry =
     JObject [(''type'', JString ''Point''),
              (''coordinates'', JArray [JNumber (- 80.19), JNumber 25.76])]"

definition miamiFeature :: jvalue where
  "miamiFeature =
     JObject [(''type'', JString ''Feature''),
              (''geometry'', miamiGeometry),
              (''properties'',
                 JObject [(''shelter_id'', JNumber 1),
                          (''shelter_name'', JString ''Test''),
                          (''shelter_status'', JString ''OPEN''),
                          (''latitude'', JNull),
                          (''longitude'', JNumber 0)])]"

definition noCoordinatesGeometry :: jvalue where
  "noCoordinatesGeometry = JObject [(''type'', JString ''Point'')]"

definition noCoordinatesFeature :: jvalue where
  "noCoordinatesFeature =
     JObject [(''type'', JString ''Feature''),
              (''geometry'', noCoordinatesGeometry),
              (''properties'', JObject [(''shelter_id'', JNumber 2)])]"

definition houstonFeature :: jvalue where
  "houstonFeature =
     JObject [(''type'', JString ''Feature''),
              (''geometry'',
                 JObject [(''type'', JString ''Point''),
                          (''coordinates'', JArray [JNumber (- 95.37), JNumber 29.76])]),
              (''properties'',
                 JObject [(''shelter_id'', JNumber 3),
                          (''shelter_status'', JString ''FULL''),
                          (''total_population'', JString ''12'')])]"

definition exampleFeatures :: "jvalue list" where
  "exampleFeatures = [polygonFeature, miamiFeature, noCoordinatesFeature, houstonFeature]"

definition exampleGeojson :: jvalue where
  "exampleGeojson =
     JObject [(''type'', JString ''FeatureCollection''), (''features'', JArray exampleFeatures)]"

definition exampleResponse :: Response where
  "exampleResponse = \<lparr> ok = True, statusText = ''OK'', json = Inr exampleGeojson \<rparr>"

definition miamiShelter :: Shelter where
  "miamiShelter =
     \<lparr> shelter_id = Some (JNumber 1), name = JString ''Test'', address = JString '''',
       city = JString '''', state = JString '''', zip_code = JString '''',
       status = ''OPEN'', latitude = JNumber 25.76, longitude = JNumber (- 80.19),
       total_population = JNull, ada_compliant = JNull, wheelchair_accessible = JNull,
       pet_accommodations = JNull, source = ''FEMA / ARC (National Shelter System)'',
       last_updated = ''2026-01-01T00:00:00.000Z'' \<rparr>"

definition houstonShelter :: Shelter where
  "houstonShelter =
     \<lparr> shelter_id = Some (JNumber 3), name = JString ''Unknown Shelter'', address = JString '''',
       city = JString '''', state = JString '''', zip_code = JString '''',
       status = ''UNKNOWN'', latitude = JNumber 29.76, longitude = JNumber (- 95.37),
       total_population = JNull, ada_compliant = JNull, wheelchair_accessible = JNull,
       pet_accommodations = JNull, source = ''FEMA / ARC (National Shelter System)'',
       last_updated = ''2026-01-01T00:00:00.001Z'' \<rparr>"

definition nonNumericFeature :: jvalue where
  "nonNumericFeature =
     JObject [(''type'', JString ''Feature''),
              (''geometry'',
                 JObject [(''type'', JString ''Point''),
                          (''coordinates'', JArray [JString ''east'', JNull])])]"

definition nonNumericShelter :: Shelter where
  "nonNumericShelter =
     \<lparr> shelter_id = None, name = JString ''Unknown Shelter'', address = JString '''',
       city = JString '''', state = JString '''', zip_code = JString '''',
       status = ''UNKNOWN'', latitude = JNull, longitude = JString ''east'',
       total_population = JNull, ada_compliant = JNull, wheelchair_accessible = JNull,
       pet_accommodations = JNull, source = ''FEMA / ARC (National Shelter System)'',
       last_updated = ''2026-01-01T00:00:00.000Z'' \<rparr>"

definition notSequenceResponse :: Response where
  "notSequenceResponse =
     \<lparr> ok = True, statusText = ''OK'',
       json = Inr (JObject [(''type'', JString ''FeatureCollection''),
                            (''features'', JObject [(''0'', miamiFeature)])]) \<rparr>"

definition unavailableResponse :: Response where
  "unavailableResponse =
     \<lparr> ok = False, statusText = ''Service Unavailable'', json = Inl (Rejected ''not read'') \<rparr>"

section \<open>Reads, callbacks and the three passes\<close>

lemma andThen_Inl [simp]: "andThen (Inl e) k = Inl e"
  by (simp add: andThen_def)

lemma andThen_Inr [simp]: "andThen (Inr x) k = k x"
  by (simp add: andThen_def)

lemma getProp_null [simp]: "getProp (Some JNull) k = Inl TypeError"
  by (simp add: getProp_def)

lemma getProp_undefined [simp]: "getProp None k = Inl TypeError"
  by (simp add: getProp_def)

lemma getProp_value: "x \<noteq> JNull \<Longrightarrow> getProp (Some x) k = Inr (ownProp x k)"
  by (simp add: getProp_def)

lemma ownProp_null [simp]: "ownProp JNull k = None"
  by (simp add: ownProp_def)

lemma getPropOpt_eq: "getPropOpt v k = (case v of None \<Rightarrow> None | Some x \<Rightarrow> ownProp x k)"
  by (cases v) (auto simp: getPropOpt_def)

lemma coalesce_not_null: "b \<noteq> JNull \<Longrightarrow> coalesce a b \<noteq> JNull"
  by (cases a) (auto simp: coalesce_def)

lemma isPointFeature_null [simp]: "isPointFeature JNull = Inl TypeError"
  by (simp add: isPointFeature_def)

lemma isPointFeature_value: "f \<noteq> JNull \<Longrightarrow> isPointFeature f = Inr (keepsFeature f)"
  by (simp add: isPointFeature_def keepsFeature_def getProp_value)

lemma keepsFeature_geometry:
  "keepsFeature f \<longleftrightarrow> (\<exists>g. ownProp f ''geometry'' = Some g \<and> ownProp g ''type'' = Some (JString ''Point''))"
  by (cases "f = JNull") (auto simp: keepsFeature_def isPointFeature_def getProp_value getPropOpt_eq split: option.splits)

lemma filterPoint_null: "JNull \<in> set fs \<Longrightarrow> filterPoint fs = Inl TypeError"
proof (induction fs)
  case Nil
  then show ?case by simp
next
  case (Cons f fs)
  show ?case
  proof (cases "f = JNull")
    case True
    then show ?thesis by simp
  next
    case False
    with Cons have "filterPoint fs = Inl TypeError" by simp
    with False show ?thesis by (simp add: isPointFeature_value)
  qed
qed

lemma filterPoint_values: "JNull \<notin> set fs \<Longrightarrow> filterPoint fs = Inr (filter keepsFeature fs)"
  by (induction fs) (auto simp: isPointFeature_value)

lemma shelterLiteral_value:
  "p \<noteq> JNull \<Longrightarrow> \<exists>s. shelterLiteral now p lon lat = Inr s"
  by (simp add: shelterLiteral_def getProp_value)

lemma toShelter_kept:
  assumes "keepsFeature f"
  shows "\<exists>r. toShelter now f = Inr r"
proof -
  from assms obtain g where g: "ownProp f ''geometry'' = Some g" "ownProp g ''type'' = Some (JString ''Point'')"
    by (auto simp: keepsFeature_geometry)
  then have nn: "f \<noteq> JNull" "g \<noteq> JNull" by auto
  let ?p = "coalesce (ownProp f ''properties'') (JObject [])"
  have p: "?p \<noteq> JNull" by (rule coalesce_not_null) simp
  show ?thesis
    using shelterLiteral_value [OF p, of now] nn g
    apply (simp add: toShelter_def getProp_value Let_def split: option.splits jvalue.splits)
    by (metis andThen_Inr)
qed

lemma toShelter_featureRecord:
  "keepsFeature f \<Longrightarrow> toShelter now f = Inr (featureRecord now f)"
  using toShelter_kept [of f now] by (auto simp: featureRecord_def keepsFeature_def)

lemma mapShelter_kept:
  "\<forall>f \<in> set pts. keepsFeature f \<Longrightarrow>
   mapShelter clock k pts = Inr (map (\<lambda>(j, f). featureRecord (clock j) f) (enumerate k pts))"
  by (induction pts arbitrary: k) (simp_all add: toShelter_featureRecord)

lemma normalizeFeatures_null: "JNull \<in> set fs \<Longrightarrow> normalizeFeatures clock fs = Inl TypeError"
  by (simp add: normalizeFeatures_def filterPoint_null)

lemma normalizeFeatures_values:
  "JNull \<notin> set fs \<Longrightarrow> normalizeFeatures clock fs = Inr (records clock 0 fs)"
  by (simp add: normalizeFeatures_def filterPoint_values mapShelter_kept records_def)

lemma normalizeFeatures_Inr:
  "normalizeFeatures clock fs = Inr out \<longleftrightarrow> JNull \<notin> set fs \<and> out = records clock 0 fs"
  by (cases "JNull \<in> set fs") (auto simp: normalizeFeatures_null normalizeFeatures_values)

lemma shelterLiteral_eq:
  "p \<noteq> JNull \<Longrightarrow>
   shelterLiteral now p lon lat =
     Inr \<lparr> shelter_id = ownProp p ''shelter_id'',
           name = coalesce (ownProp p ''shelter_name'') (JString ''Unknown Shelter''),
           address = coalesce (ownProp p ''address'') (JString ''''),
           city = coalesce (ownProp p ''city'') (JString ''''),
           state = coalesce (ownProp p ''state'') (JString ''''),
           zip_code = coalesce (ownProp p ''zip'') (JString ''''),
           status =
             (if ownProp p ''shelter_status'' = Some (JString ''OPEN'') then ''OPEN''
              else if ownProp p ''shelter_status'' = Some (JString ''CLOSED'') then ''CLOSED''
              else ''UNKNOWN''),
           latitude = lat,
           longitude = lon,
           total_population =
             (case ownProp p ''total_population'' of Some (JNumber x) \<Rightarrow> JNumber x | _ \<Rightarrow> JNull),
           ada_compliant = coalesce (ownProp p ''ada_compliant'') JNull,
           wheelchair_accessible = coalesce (ownProp p ''wheelchair_accessible'') JNull,
           pet_accommodations = coalesce (ownProp p ''pet_accommodations_code'') JNull,
           source = ''FEMA / ARC (National Shelter System)'',
           last_updated = now \<rparr>"
  by (simp add: shelterLiteral_def getProp_value)

lemma shelterLiteral_null [simp]: "shelterLiteral now JNull lon lat = Inl TypeError"
  by (simp add: shelterLiteral_def)

lemma shelterLiteral_fields:
  assumes "shelterLiteral now p lon lat = Inr s"
  shows "latitude s = lat" and "longitude s = lon" and "last_updated s = now"
    and "status s = (if ownProp p ''shelter_status'' = Some (JString ''OPEN'') then ''OPEN''
                 else if ownProp p ''shelter_status'' = Some (JString ''CLOSED'') then ''CLOSED''
                 else ''UNKNOWN'')"
    and "total_population s = (case ownProp p ''total_population'' of Some (JNumber x) \<Rightarrow> JNumber x | _ \<Rightarrow> JNull)"
proof -
  have nn: "p \<noteq> JNull" using assms by (cases "p = JNull") simp_all
  have s: "s = projr (shelterLiteral now p lon lat)" using assms by simp
  show "latitude s = lat" by (simp add: s shelterLiteral_eq [OF nn])
  show "longitude s = lon" by (simp add: s shelterLiteral_eq [OF nn])
  show "last_updated s = now" by (simp add: s shelterLiteral_eq [OF nn])
  show "status s = (if ownProp p ''shelter_status'' = Some (JString ''OPEN'') then ''OPEN''
                 else if ownProp p ''shelter_status'' = Some (JString ''CLOSED'') then ''CLOSED''
                 else ''UNKNOWN'')" by (simp add: s shelterLiteral_eq [OF nn])
  show "total_population s = (case ownProp p ''total_population'' of Some (JNumber x) \<Rightarrow> JNumber x | _ \<Rightarrow> JNull)"
    by (simp add: s shelterLiteral_eq [OF nn])
qed

lemma shelterLiteral_time:
  assumes "shelterLiteral now p lon lat = Inr s"
  shows "shelterLiteral now' p lon lat = Inr (s\<lparr>last_updated := now'\<rparr>)"
proof -
  have nn: "p \<noteq> JNull" using assms by (cases "p = JNull") simp_all
  have s: "s = projr (shelterLiteral now p lon lat)" using assms by simp
  show ?thesis by (simp add: s shelterLiteral_eq [OF nn])
qed

lemma length_two: "length cs = 2 \<longleftrightarrow> (\<exists>lo la. cs = [lo, la])"
  by (cases cs; cases "tl cs"; cases "tl (tl cs)") auto

lemma toShelter_pair:
  assumes "ownProp f ''geometry'' = Some g" and "ownProp g ''type'' = Some (JString ''Point'')"
    and "ownProp g ''coordinates'' = Some (JArray [lo, la])"
  shows "toShelter now f =
    andThen (shelterLiteral now (coalesce (ownProp f ''properties'') (JObject [])) lo la)
      (\<lambda>s. Inr (Some s))"
proof -
  from assms have "f \<noteq> JNull" and "g \<noteq> JNull" by auto
  with assms show ?thesis by (simp add: toShelter_def getProp_value)
qed

lemma toShelter_no_pair:
  assumes "ownProp f ''geometry'' = Some g" and "ownProp g ''type'' = Some (JString ''Point'')"
    and "\<forall>lo la. ownProp g ''coordinates'' \<noteq> Some (JArray [lo, la])"
  shows "toShelter now f = Inr None"
proof -
  from assms have nn: "f \<noteq> JNull" "g \<noteq> JNull" by auto
  show ?thesis
  proof (cases "ownProp g ''coordinates''")
    case None
    with nn assms show ?thesis by (simp add: toShelter_def getProp_value)
  next
    case (Some c)
    show ?thesis
    proof (cases c)
      case (JArray cs)
      with Some assms(3) have "length cs \<noteq> 2" by (simp add: length_two)
      with nn assms Some JArray show ?thesis by (simp add: toShelter_def getProp_value)
    qed (use nn assms Some in \<open>simp_all add: toShelter_def getProp_value\<close>)
  qed
qed

lemma featureRecord_Some:
  "featureRecord now f = Some s \<longleftrightarrow>
   (\<exists>g lo la. ownProp f ''geometry'' = Some g \<and> ownProp g ''type'' = Some (JString ''Point'')
      \<and> ownProp g ''coordinates'' = Some (JArray [lo, la])
      \<and> shelterLiteral now (coalesce (ownProp f ''properties'') (JObject [])) lo la = Inr s)"
proof (cases "keepsFeature f")
  case False
  then show ?thesis
    by (auto simp: featureRecord_def keepsFeature_geometry)
next
  case True
  then obtain g where g: "ownProp f ''geometry'' = Some g" "ownProp g ''type'' = Some (JString ''Point'')"
    by (auto simp: keepsFeature_geometry)
  let ?p = "coalesce (ownProp f ''properties'') (JObject [])"
  have p: "?p \<noteq> JNull" by (rule coalesce_not_null) simp
  have rec: "featureRecord now f = (case toShelter now f of Inr r \<Rightarrow> r | Inl e \<Rightarrow> None)"
    using True by (simp add: featureRecord_def)
  show ?thesis
  proof (cases "\<exists>lo la. ownProp g ''coordinates'' = Some (JArray [lo, la])")
    case True
    then obtain lo la where c: "ownProp g ''coordinates'' = Some (JArray [lo, la])" by blast
    obtain s' where s': "shelterLiteral now ?p lo la = Inr s'"
      using shelterLiteral_eq [OF p] by blast
    have "toShelter now f = Inr (Some s')"
      using toShelter_pair [OF g c] s' by simp
    then show ?thesis using g c s' by (simp add: rec)
  next
    case False
    then have "toShelter now f = Inr None"
      using toShelter_no_pair [OF g] by simp
    then show ?thesis using False g by (simp add: rec)
  qed
qed

lemma featureRecord_time:
  "map_option withoutTime (featureRecord now f) = map_option withoutTime (featureRecord now' f)"
proof -
  have step: "\<exists>s'. featureRecord b f = Some s' \<and> withoutTime s' = withoutTime s"
    if "featureRecord a f = Some s" for a b s
  proof -
    from that obtain g lo la where
      h: "ownProp f ''geometry'' = Some g" "ownProp g ''type'' = Some (JString ''Point'')"
         "ownProp g ''coordinates'' = Some (JArray [lo, la])"
         "shelterLiteral a (coalesce (ownProp f ''properties'') (JObject [])) lo la = Inr s"
      unfolding featureRecord_Some by blast
    have "featureRecord b f = Some (s\<lparr>last_updated := b\<rparr>)"
      unfolding featureRecord_Some using h(1-3) shelterLiteral_time [OF h(4), of b] by blast
    then show ?thesis by (simp add: withoutTime_def)
  qed
  show ?thesis
  proof (cases "featureRecord now f")
    case None
    show ?thesis
    proof (cases "featureRecord now' f")
      case None
      with \<open>featureRecord now f = None\<close> show ?thesis by simp
    next
      case (Some t)
      from step [OF Some, of now] None show ?thesis by simp
    qed
  next
    case (Some s)
    from step [OF Some, of now'] Some show ?thesis by auto
  qed
qed

lemma featureRecord_kept: "featureRecord now f = Some s \<Longrightarrow> keepsFeature f"
  by (auto simp: featureRecord_def split: if_splits)

section \<open>The output as the records of the features, in order\<close>

lemma filterBoolean_append: "filterBoolean (rs @ rs') = filterBoolean rs @ filterBoolean rs'"
  by (induction rs rule: filterBoolean.induct) simp_all

lemma records_append:
  "records clock k (xs @ ys) =
   records clock k xs @ records clock (k + length (filter keepsFeature xs)) ys"
  by (simp add: records_def enumerate_append_eq filterBoolean_append)

lemma records_Nil [simp]: "records clock k [] = []"
  by (simp add: records_def)

lemma records_single:
  "records clock k [f] = (case featureRecord (clock k) f of None \<Rightarrow> [] | Some s \<Rightarrow> [s])"
  by (cases "featureRecord (clock k) f") (auto simp: records_def dest: featureRecord_kept)

lemma records_Cons:
  "records clock k (f # fs) =
   records clock k [f] @ records clock (if keepsFeature f then Suc k else k) fs"
  using records_append [of clock k "[f]" fs] by simp

lemma featureRecord_time_cases:
  "(featureRecord now f = None \<and> featureRecord now' f = None) \<or>
   (\<exists>s s'. featureRecord now f = Some s \<and> featureRecord now' f = Some s' \<and>
      withoutTime s = withoutTime s')"
  using featureRecord_time [of now f now']
  by (cases "featureRecord now f"; cases "featureRecord now' f") simp_all

lemma yieldsRecord_time: "yieldsRecord f \<longleftrightarrow> featureRecord now f \<noteq> None"
  using featureRecord_time_cases [of now f "[]"] by (auto simp: yieldsRecord_def)

lemma length_records: "length (records clock k fs) = length (filter yieldsRecord fs)"
proof (induction fs arbitrary: k)
  case Nil
  show ?case by simp
next
  case (Cons f fs)
  show ?case
    by (subst records_Cons)
       (auto simp: Cons records_single yieldsRecord_time [of f "clock k"] split: option.splits)
qed

lemma records_time:
  "map withoutTime (records clock k fs) = map withoutTime (records clock' k' fs)"
proof (induction fs arbitrary: k k')
  case Nil
  show ?case by simp
next
  case (Cons f fs)
  have one: "map withoutTime (records clock k [f]) = map withoutTime (records clock' k' [f])"
    using featureRecord_time_cases [of "clock k" f "clock' k'"]
    by (auto simp: records_single)
  show ?case
    by (subst (1 2) records_Cons) (simp only: map_append one Cons [of _ "if keepsFeature f then Suc k' else k'"])
qed

lemma records_nth:
  assumes "i < length fs" and "yieldsRecord (fs ! i)"
  shows "outputIndex fs i < length (records clock 0 fs)"
    and "recordFrom (fs ! i) (records clock 0 fs ! outputIndex fs i)"
proof -
  let ?k = "length (filter keepsFeature (take i fs))"
  let ?pre = "records clock 0 (take i fs)"
  obtain s where s: "featureRecord (clock ?k) (fs ! i) = Some s"
    using assms(2) yieldsRecord_time [of "fs ! i" "clock ?k"] by auto
  have split: "fs = take i fs @ [fs ! i] @ drop (Suc i) fs"
    using assms(1) id_take_nth_drop by fastforce
  have "records clock 0 fs = ?pre @ records clock ?k ([fs ! i] @ drop (Suc i) fs)"
    by (subst split) (simp only: records_append add_0)
  also have "records clock ?k ([fs ! i] @ drop (Suc i) fs) =
      s # records clock (?k + length (filter keepsFeature [fs ! i])) (drop (Suc i) fs)"
    by (subst records_append) (simp add: records_single s)
  finally have eq: "records clock 0 fs =
      ?pre @ s # records clock (?k + length (filter keepsFeature [fs ! i])) (drop (Suc i) fs)" .
  have len: "outputIndex fs i = length ?pre"
    by (simp add: outputIndex_def length_records)
  show "outputIndex fs i < length (records clock 0 fs)"
    unfolding len by (subst eq) simp
  have at: "records clock 0 fs ! outputIndex fs i = s"
    unfolding len by (subst eq) (rule nth_append_length)
  have "last_updated s = clock ?k"
    using s by (auto simp: featureRecord_Some dest: shelterLiteral_fields(3))
  with s show "recordFrom (fs ! i) (records clock 0 fs ! outputIndex fs i)"
    by (simp add: at recordFrom_def)
qed

section \<open>The checks before the passes\<close>

lemma ownProp_coalesce: "ownProp (coalesce v (JObject [])) k = getPropOpt v k"
  by (cases v) (auto simp: coalesce_def getPropOpt_def ownProp_def)

lemma fetch_response:
  "fetchFEMAShelters clock (Inr res) =
     (if \<not> ok res then Inl (Error (''Failed to fetch FEMA shelters: '' @ statusText res))
      else case json res of
        Inl e \<Rightarrow> Inl e
      | Inr geojson \<Rightarrow>
          (case ownProp geojson ''features'' of
             Some (JArray fs) \<Rightarrow> normalizeFeatures clock fs
           | _ \<Rightarrow> Inl (Error ''Invalid GeoJSON response from ArcGIS'')))"
proof (cases "json res")
  case (Inl e)
  then show ?thesis by (simp add: fetchFEMAShelters_def)
next
  case (Inr geojson)
  show ?thesis
  proof (cases "geojson = JNull")
    case True
    with Inr show ?thesis
      by (simp add: fetchFEMAShelters_def getPropOpt_def truthy_def)
  next
    case False
    show ?thesis
    proof (cases "ownProp geojson ''features''")
      case None
      with Inr False show ?thesis
        by (simp add: fetchFEMAShelters_def getPropOpt_def truthy_def)
    next
      case (Some v)
      with Inr False show ?thesis
        by (cases v)
           (simp_all add: fetchFEMAShelters_def getPropOpt_def getProp_value truthy_def isArray_def)
    qed
  qed
qed

lemma fetch_features:
  assumes "fetchFEMAShelters clock (Inr res) = Inr out" and "json res = Inr geojson"
    and "ownProp geojson ''features'' = Some (JArray fs)"
  shows "JNull \<notin> set fs" and "out = records clock 0 fs"
  using assms by (auto simp: fetch_response normalizeFeatures_Inr split: if_splits)

lemma yieldsRecord_pair:
  "yieldsRecord f \<longleftrightarrow>
   (\<exists>g lo la. ownProp f ''geometry'' = Some g \<and> ownProp g ''type'' = Some (JString ''Point'')
      \<and> ownProp g ''coordinates'' = Some (JArray [lo, la]))"
proof
  assume "yieldsRecord f"
  then obtain s where "featureRecord [] f = Some s" by (auto simp: yieldsRecord_def)
  then show "\<exists>g lo la. ownProp f ''geometry'' = Some g \<and> ownProp g ''type'' = Some (JString ''Point'')
      \<and> ownProp g ''coordinates'' = Some (JArray [lo, la])"
    unfolding featureRecord_Some by blast
next
  assume "\<exists>g lo la. ownProp f ''geometry'' = Some g \<and> ownProp g ''type'' = Some (JString ''Point'')
      \<and> ownProp g ''coordinates'' = Some (JArray [lo, la])"
  then obtain g lo la where h: "ownProp f ''geometry'' = Some g"
    "ownProp g ''type'' = Some (JString ''Point'')" "ownProp g ''coordinates'' = Some (JArray [lo, la])"
    by blast
  let ?p = "coalesce (ownProp f ''properties'') (JObject [])"
  have "?p \<noteq> JNull" by (rule coalesce_not_null) simp
  then obtain s where "shelterLiteral [] ?p lo la = Inr s"
    using shelterLiteral_eq by blast
  with h have "featureRecord [] f = Some s" unfolding featureRecord_Some by blast
  then show "yieldsRecord f" by (simp add: yieldsRecord_def)
qed

lemma recordFrom_fields:
  assumes "recordFrom f s"
  shows "\<exists>g. ownProp f ''geometry'' = Some g \<and> ownProp g ''type'' = Some (JString ''Point'')
           \<and> ownProp g ''coordinates'' = Some (JArray [longitude s, latitude s])"
    and "status s =
      (if getPropOpt (ownProp f ''properties'') ''shelter_status'' = Some (JString ''OPEN'') then ''OPEN''
       else if getPropOpt (ownProp f ''properties'') ''shelter_status'' = Some (JString ''CLOSED'') then ''CLOSED''
       else ''UNKNOWN'')"
    and "total_population s =
      (case getPropOpt (ownProp f ''properties'') ''total_population'' of
         Some (JNumber x) \<Rightarrow> JNumber x | _ \<Rightarrow> JNull)"
proof -
  from assms obtain g lo la where
    h: "ownProp f ''geometry'' = Some g" "ownProp g ''type'' = Some (JString ''Point'')"
       "ownProp g ''coordinates'' = Some (JArray [lo, la])"
       "shelterLiteral (last_updated s) (coalesce (ownProp f ''properties'') (JObject [])) lo la = Inr s"
    unfolding recordFrom_def featureRecord_Some by blast
  note fields = shelterLiteral_fields [OF h(4)]
  show "\<exists>g. ownProp f ''geometry'' = Some g \<and> ownProp g ''type'' = Some (JString ''Point'')
           \<and> ownProp g ''coordinates'' = Some (JArray [longitude s, latitude s])"
    using h(1-3) fields(1,2) by simp
  show "status s =
      (if getPropOpt (ownProp f ''properties'') ''shelter_status'' = Some (JString ''OPEN'') then ''OPEN''
       else if getPropOpt (ownProp f ''properties'') ''shelter_status'' = Some (JString ''CLOSED'') then ''CLOSED''
       else ''UNKNOWN'')"
    using fields(4) by (simp only: ownProp_coalesce)
  show "total_population s =
      (case getPropOpt (ownProp f ''properties'') ''total_population'' of
         Some (JNumber x) \<Rightarrow> JNumber x | _ \<Rightarrow> JNull)"
    using fields(5) by (simp only: ownProp_coalesce)
qed

lemma records_source:
  "s \<in> set (records clock k fs) \<Longrightarrow> \<exists>f \<in> set fs. recordFrom f s"
proof (induction fs arbitrary: k)
  case Nil
  then show ?case by simp
next
  case (Cons f fs)
  from Cons.prems have "s \<in> set (records clock k [f]) \<or>
      s \<in> set (records clock (if keepsFeature f then Suc k else k) fs)"
    by (subst (asm) records_Cons) auto
  then show ?case
  proof
    assume "s \<in> set (records clock k [f])"
    then have r: "featureRecord (clock k) f = Some s"
      by (auto simp: records_single split: option.splits)
    then have "last_updated s = clock k"
      by (auto simp: featureRecord_Some dest: shelterLiteral_fields(3))
    with r show ?thesis by (simp add: recordFrom_def)
  next
    assume "s \<in> set (records clock (if keepsFeature f then Suc k else k) fs)"
    from Cons.IH [OF this] show ?thesis by auto
  qed
qed

lemma feature_not_yielding_dropped:
  assumes "f \<noteq> JNull" and "\<not> yieldsRecord f"
  shows "timeless (normalizeFeatures clock (xs @ f # ys)) =
         timeless (normalizeFeatures clock (xs @ ys))"
proof (cases "JNull \<in> set xs \<or> JNull \<in> set ys")
  case True
  then show ?thesis by (auto simp: normalizeFeatures_null)
next
  case False
  let ?k = "length (filter keepsFeature xs)"
  have none: "records clock ?k [f] = []"
    using assms(2) yieldsRecord_time [of f "clock ?k"] by (simp add: records_single)
  have "records clock 0 (xs @ f # ys) =
      records clock 0 xs @ records clock (?k + length (filter keepsFeature [f])) ys"
    using records_append [of clock 0 xs "[f] @ ys"] records_append [of clock ?k "[f]" ys] none
    by simp
  then have "map withoutTime (records clock 0 (xs @ f # ys)) =
      map withoutTime (records clock 0 (xs @ ys))"
    using records_time [of clock "?k + length (filter keepsFeature [f])" ys clock ?k]
    by (simp add: records_append)
  with False assms(1) show ?thesis
    by (simp add: normalizeFeatures_values timeless_def)
qed

lemma non_point_feature_dropped:
  assumes "f \<noteq> JNull"
    and "\<forall>g. ownProp f ''geometry'' = Some g \<longrightarrow> ownProp g ''type'' \<noteq> Some (JString ''Point'')"
  shows "normalizeFeatures clock (xs @ f # ys) = normalizeFeatures clock (xs @ ys)"
proof (cases "JNull \<in> set xs \<or> JNull \<in> set ys")
  case True
  then show ?thesis by (auto simp: normalizeFeatures_null)
next
  case False
  have "\<not> keepsFeature f" using assms(2) by (simp add: keepsFeature_geometry)
  then have "records clock 0 (xs @ f # ys) = records clock 0 (xs @ ys)"
    by (simp add: records_def)
  with False assms(1) show ?thesis by (simp add: normalizeFeatures_values)
qed

lemma point_without_pair_dropped:
  assumes "ownProp f ''geometry'' = Some g"
    and "ownProp g ''type'' = Some (JString ''Point'')"
    and "\<forall>lo la. ownProp g ''coordinates'' \<noteq> Some (JArray [lo, la])"
  shows "timeless (normalizeFeatures clock (xs @ f # ys)) =
         timeless (normalizeFeatures clock (xs @ ys))"
proof -
  have nn: "f \<noteq> JNull" using assms(1) by auto
  have ny: "\<not> yieldsRecord f" unfolding yieldsRecord_pair using assms by auto
  from nn ny show ?thesis by (rule feature_not_yielding_dropped)
qed

lemma outputIndex_less:
  assumes "i < j" and "j < length fs" and "yieldsRecord (fs ! i)"
  shows "outputIndex fs i < outputIndex fs j"
proof -
  have i: "i < length (take j fs)" using assms(1,2) by simp
  have "take j fs = take i (take j fs) @ take j fs ! i # drop (Suc i) (take j fs)"
    using i by (rule id_take_nth_drop)
  also have "take i (take j fs) = take i fs" using assms(1) by (simp add: min_def)
  also have "take j fs ! i = fs ! i" using assms(1) by simp
  finally have "take j fs = take i fs @ fs ! i # drop (Suc i) (take j fs)" .
  then have "filter yieldsRecord (take j fs) =
      filter yieldsRecord (take i fs) @ fs ! i # filter yieldsRecord (drop (Suc i) (take j fs))"
    using assms(3) by (metis filter.simps(2) filter_append)
  then show ?thesis by (simp add: outputIndex_def)
qed

lemma normalizeFeatures_time:
  "timeless (normalizeFeatures clock fs) = timeless (normalizeFeatures clock' fs)"
proof (cases "JNull \<in> set fs")
  case True
  then show ?thesis by (simp add: normalizeFeatures_null)
next
  case False
  then show ?thesis
    using records_time [of clock 0 fs clock' 0]
    by (simp add: normalizeFeatures_values timeless_def)
qed

section \<open>The example run\<close>

lemmas example_defs =
  exampleClock_def polygonFeature_def miamiGeometry_def miamiFeature_def
  noCoordinatesGeometry_def noCoordinatesFeature_def houstonFeature_def exampleFeatures_def
  exampleGeojson_def exampleResponse_def miamiShelter_def houstonShelter_def

lemmas code_defs =
  fetchFEMAShelters_def normalizeFeatures_def isPointFeature_def toShelter_def
  shelterLiteral_def getProp_def getPropOpt_def ownProp_def coalesce_def truthy_def
  isArray_def andThen_def

lemma example_run:
  "fetchFEMAShelters exampleClock (Inr exampleResponse) = Inr [miamiShelter, houstonShelter]"
  by (simp add: example_defs code_defs)

lemma example_yields:
  "\<not> yieldsRecord polygonFeature" "yieldsRecord miamiFeature"
  "\<not> yieldsRecord noCoordinatesFeature" "yieldsRecord houstonFeature"
  by (simp_all add: yieldsRecord_pair example_defs ownProp_def)

lemma example_index:
  "outputIndex exampleFeatures 1 = 0" "outputIndex exampleFeatures 3 = 1"
  by (simp_all add: outputIndex_def exampleFeatures_def example_yields
        numeral_3_eq_3 take_Suc_conv_app_nth)

lemma example_json: "json exampleResponse = Inr exampleGeojson"
  by (simp add: exampleResponse_def)

lemma example_features: "ownProp exampleGeojson ''features'' = Some (JArray exampleFeatures)"
  by (simp add: exampleGeojson_def ownProp_def)

lemma example_nth:
  "exampleFeatures ! 1 = miamiFeature" "exampleFeatures ! 2 = noCoordinatesFeature"
  "exampleFeatures ! 3 = houstonFeature"
  by (simp_all add: exampleFeatures_def numeral_3_eq_3 numeral_2_eq_2)

lemma example_length: "length exampleFeatures = 4"
  by (simp add: exampleFeatures_def)

lemma houston_properties:
  "getPropOpt (ownProp houstonFeature ''properties'') ''shelter_status'' = Some (JString ''FULL'')"
  "getPropOpt (ownProp houstonFeature ''properties'') ''total_population'' = Some (JString ''12'')"
  by (simp_all add: houstonFeature_def getPropOpt_def ownProp_def)

section \<open>Properties of the specification\<close>

text \<open>
  Claim C1. A feature with geometry type \<open>Point\<close> and a coordinate pair of two numbers
  has a record in the output (at the position given by the features before it that yield
  a record), and that record has \<open>latitude = coordinates[1]\<close> and
  \<open>longitude = coordinates[0]\<close>. Nothing is assumed of the feature's \<open>properties\<close>, so
  its \<open>latitude\<close> and \<open>longitude\<close> properties have no influence.
\<close>

theorem point_coordinates_from_geometry:
  assumes "fetchFEMAShelters clock (Inr res) = Inr out"
    and "json res = Inr geojson"
    and "ownProp geojson ''features'' = Some (JArray fs)"
    and "i < length fs"
    and "ownProp (fs ! i) ''geometry'' = Some g"
    and "ownProp g ''type'' = Some (JString ''Point'')"
    and "ownProp g ''coordinates'' = Some (JArray [JNumber lon, JNumber lat])"
  shows "outputIndex fs i < length out
    \<and> recordFrom (fs ! i) (out ! outputIndex fs i)
    \<and> latitude (out ! outputIndex fs i) = JNumber lat
    \<and> longitude (out ! outputIndex fs i) = JNumber lon"
proof -
  have out: "out = records clock 0 fs" using assms(1-3) by (rule fetch_features)
  have y: "yieldsRecord (fs ! i)" unfolding yieldsRecord_pair using assms(5-7) by blast
  have idx: "outputIndex fs i < length out" and rf: "recordFrom (fs ! i) (out ! outputIndex fs i)"
    unfolding out using assms(4) y by (rule records_nth)+
  from recordFrom_fields(1) [OF rf] assms(5,7)
  have "latitude (out ! outputIndex fs i) = JNumber lat"
    and "longitude (out ! outputIndex fs i) = JNumber lon" by auto
  with idx rf show ?thesis by simp
qed

theorem point_coordinates_from_geometry_witness:
  "fetchFEMAShelters exampleClock (Inr exampleResponse) = Inr [miamiShelter, houstonShelter]
   \<and> exampleFeatures ! 1 = miamiFeature
   \<and> ownProp miamiFeature ''geometry'' = Some miamiGeometry
   \<and> ownProp miamiGeometry ''coordinates'' = Some (JArray [JNumber (- 80.19), JNumber 25.76])
   \<and> ownProp miamiFeature ''properties'' \<noteq> None
   \<and> latitude ([miamiShelter, houstonShelter] ! 0) = JNumber 25.76
   \<and> longitude ([miamiShelter, houstonShelter] ! 0) = JNumber (- 80.19)"
proof -
  have i: "1 < length exampleFeatures" by (simp add: example_length)
  have g: "ownProp (exampleFeatures ! 1) ''geometry'' = Some miamiGeometry"
    unfolding example_nth by (simp add: miamiFeature_def ownProp_def)
  have t: "ownProp miamiGeometry ''type'' = Some (JString ''Point'')"
    by (simp add: miamiGeometry_def ownProp_def)
  have c: "ownProp miamiGeometry ''coordinates'' = Some (JArray [JNumber (- 80.19), JNumber 25.76])"
    by (simp add: miamiGeometry_def ownProp_def)
  have g': "ownProp miamiFeature ''geometry'' = Some miamiGeometry"
    using g unfolding example_nth .
  have p: "ownProp miamiFeature ''properties'' \<noteq> None"
    by (simp add: miamiFeature_def ownProp_def)
  from point_coordinates_from_geometry [OF example_run example_json example_features i g t c]
  have "latitude ([miamiShelter, houstonShelter] ! 0) = JNumber 25.76"
    and "longitude ([miamiShelter, houstonShelter] ! 0) = JNumber (- 80.19)"
    unfolding example_index by simp_all
  with g' c p show ?thesis
    by (simp only: example_run example_nth simp_thms)
qed

text \<open>
  Claim C2. A point feature whose coordinate pair is absent or does not have exactly two
  numeric members is to be dropped, so that every record has a latitude and a longitude
  that are not absent. The callback tests \<open>Array.isArray(coords)\<close> and
  \<open>coords.length !== 2\<close> only and does not test the members: the pair \<open>["east", null]\<close>
  passes, and the call returns a record with longitude \<open>"east"\<close> and latitude \<open>null\<close>,
  against the type \<open>Shelter\<close>, which declares both fields as \<open>number\<close>. (A point feature
  whose \<open>coordinates\<close> is absent or is not an array of two members is dropped:
  \<open>point_without_pair_dropped\<close>.)
\<close>

theorem non_numeric_pair_emitted:
  "fetchFEMAShelters exampleClock
     (Inr \<lparr> ok = True, statusText = ''OK'',
            json = Inr (JObject [(''features'', JArray [nonNumericFeature])]) \<rparr>)
     = Inr [nonNumericShelter]
   \<and> latitude nonNumericShelter = JNull
   \<and> longitude nonNumericShelter = JString ''east''"
  by (simp add: exampleClock_def nonNumericFeature_def nonNumericShelter_def code_defs)

text \<open>
  Claim C3. An element of \<open>features\<close> that has no point geometry is to be dropped without
  an error. For the element \<open>null\<close> the filter callback reads \<open>f.geometry\<close> of \<open>null\<close>: the
  whole call fails with a TypeError, and the record of the valid feature after it is lost.
  (For every other element without point geometry the property holds:
  \<open>non_point_feature_dropped\<close>.)
\<close>

theorem null_feature_raises:
  "fetchFEMAShelters exampleClock
     (Inr \<lparr> ok = True, statusText = ''OK'',
            json = Inr (JObject [(''features'', JArray [JNull, miamiFeature])]) \<rparr>)
     = Inl TypeError"
  by (simp add: code_defs)

text \<open>
  Claim C4. Every record of the output has status \<open>OPEN\<close>, \<open>CLOSED\<close> or \<open>UNKNOWN\<close>; and
  the record of a feature whose \<open>properties.shelter_status\<close> is anything but the string
  \<open>OPEN\<close> or the string \<open>CLOSED\<close> (absent included, also with \<open>properties\<close> absent) has
  status \<open>UNKNOWN\<close>.
\<close>

theorem status_enumeration:
  assumes "fetchFEMAShelters clock (Inr res) = Inr out"
    and "json res = Inr geojson"
    and "ownProp geojson ''features'' = Some (JArray fs)"
  shows "(\<forall>s \<in> set out. status s \<in> {''OPEN'', ''CLOSED'', ''UNKNOWN''})
       \<and> (\<forall>i < length fs. yieldsRecord (fs ! i) \<longrightarrow>
            outputIndex fs i < length out
            \<and> recordFrom (fs ! i) (out ! outputIndex fs i)
            \<and> (getPropOpt (ownProp (fs ! i) ''properties'') ''shelter_status''
                  \<notin> {Some (JString ''OPEN''), Some (JString ''CLOSED'')}
                \<longrightarrow> status (out ! outputIndex fs i) = ''UNKNOWN''))"
proof (intro conjI allI impI ballI)
  have out: "out = records clock 0 fs" using assms by (rule fetch_features)
  {
    fix s
    assume "s \<in> set out"
    then obtain f where "recordFrom f s" using records_source out by blast
    from recordFrom_fields(2) [OF this]
    show "status s \<in> {''OPEN'', ''CLOSED'', ''UNKNOWN''}" by simp
  }
  fix i
  assume i: "i < length fs" and y: "yieldsRecord (fs ! i)"
  show idx: "outputIndex fs i < length out"
    unfolding out using i y by (rule records_nth)
  show rf: "recordFrom (fs ! i) (out ! outputIndex fs i)"
    unfolding out using i y by (rule records_nth)
  assume "getPropOpt (ownProp (fs ! i) ''properties'') ''shelter_status''
                  \<notin> {Some (JString ''OPEN''), Some (JString ''CLOSED'')}"
  with recordFrom_fields(2) [OF rf]
  show "status (out ! outputIndex fs i) = ''UNKNOWN''" by simp
qed

theorem status_enumeration_witness:
  "fetchFEMAShelters exampleClock (Inr exampleResponse) = Inr [miamiShelter, houstonShelter]
   \<and> exampleFeatures ! 3 = houstonFeature
   \<and> getPropOpt (ownProp houstonFeature ''properties'') ''shelter_status'' = Some (JString ''FULL'')
   \<and> status ([miamiShelter, houstonShelter] ! 1) = ''UNKNOWN''
   \<and> status miamiShelter \<in> {''OPEN'', ''CLOSED'', ''UNKNOWN''}"
proof -
  note inst = status_enumeration [OF example_run example_json example_features]
  have i: "3 < length exampleFeatures" by (simp add: example_length)
  have y: "yieldsRecord (exampleFeatures ! 3)"
    unfolding example_nth by (rule example_yields)
  have p: "getPropOpt (ownProp (exampleFeatures ! 3) ''properties'') ''shelter_status''
      \<notin> {Some (JString ''OPEN''), Some (JString ''CLOSED'')}"
    unfolding example_nth houston_properties by simp
  from inst i y p have "status ([miamiShelter, houstonShelter] ! outputIndex exampleFeatures 3) = ''UNKNOWN''"
    by blast
  then have a: "status ([miamiShelter, houstonShelter] ! 1) = ''UNKNOWN''"
    unfolding example_index .
  from inst have b: "status miamiShelter \<in> {''OPEN'', ''CLOSED'', ''UNKNOWN''}"
    by simp
  from a b show ?thesis
    by (simp only: example_run example_nth houston_properties simp_thms)
qed

text \<open>
  Claim C5. Every record of the output has a \<open>total_population\<close> that is a number or
  \<open>null\<close>; the record of a feature whose \<open>properties.total_population\<close> is not a number
  (a string, an object, absent) has \<open>null\<close>, and a number is passed on as it is.
\<close>

theorem total_population_number_or_null:
  assumes "fetchFEMAShelters clock (Inr res) = Inr out"
    and "json res = Inr geojson"
    and "ownProp geojson ''features'' = Some (JArray fs)"
  shows "(\<forall>s \<in> set out. total_population s = JNull \<or> (\<exists>x. total_population s = JNumber x))
       \<and> (\<forall>i < length fs. yieldsRecord (fs ! i) \<longrightarrow>
            outputIndex fs i < length out
            \<and> recordFrom (fs ! i) (out ! outputIndex fs i)
            \<and> ((\<forall>x. getPropOpt (ownProp (fs ! i) ''properties'') ''total_population''
                       \<noteq> Some (JNumber x))
                \<longrightarrow> total_population (out ! outputIndex fs i) = JNull)
            \<and> (\<forall>x. getPropOpt (ownProp (fs ! i) ''properties'') ''total_population''
                       = Some (JNumber x)
                \<longrightarrow> total_population (out ! outputIndex fs i) = JNumber x))"
proof (intro conjI allI impI ballI)
  have out: "out = records clock 0 fs" using assms by (rule fetch_features)
  {
    fix s
    assume "s \<in> set out"
    then obtain f where "recordFrom f s" using records_source out by blast
    from recordFrom_fields(3) [OF this]
    show "total_population s = JNull \<or> (\<exists>x. total_population s = JNumber x)"
      by (auto split: option.splits jvalue.splits)
  }
  fix i
  assume i: "i < length fs" and y: "yieldsRecord (fs ! i)"
  show idx: "outputIndex fs i < length out"
    unfolding out using i y by (rule records_nth)
  show rf: "recordFrom (fs ! i) (out ! outputIndex fs i)"
    unfolding out using i y by (rule records_nth)
  {
    assume "\<forall>x. getPropOpt (ownProp (fs ! i) ''properties'') ''total_population''
                       \<noteq> Some (JNumber x)"
    with recordFrom_fields(3) [OF rf]
    show "total_population (out ! outputIndex fs i) = JNull"
      by (auto split: option.splits jvalue.splits)
  }
  fix x
  assume "getPropOpt (ownProp (fs ! i) ''properties'') ''total_population'' = Some (JNumber x)"
  with recordFrom_fields(3) [OF rf]
  show "total_population (out ! outputIndex fs i) = JNumber x" by simp
qed

theorem total_population_number_or_null_witness:
  "fetchFEMAShelters exampleClock (Inr exampleResponse) = Inr [miamiShelter, houstonShelter]
   \<and> exampleFeatures ! 3 = houstonFeature
   \<and> getPropOpt (ownProp houstonFeature ''properties'') ''total_population'' = Some (JString ''12'')
   \<and> total_population ([miamiShelter, houstonShelter] ! 1) = JNull"
proof -
  note inst = total_population_number_or_null [OF example_run example_json example_features]
  have i: "3 < length exampleFeatures" by (simp add: example_length)
  have y: "yieldsRecord (exampleFeatures ! 3)"
    unfolding example_nth by (rule example_yields)
  have p: "\<forall>x. getPropOpt (ownProp (exampleFeatures ! 3) ''properties'') ''total_population''
      \<noteq> Some (JNumber x)"
    unfolding example_nth houston_properties by simp
  from inst i y p
  have "total_population ([miamiShelter, houstonShelter] ! outputIndex exampleFeatures 3) = JNull"
    by blast
  then have "total_population ([miamiShelter, houstonShelter] ! 1) = JNull"
    unfolding example_index .
  then show ?thesis
    by (simp only: example_run example_nth houston_properties simp_thms)
qed

text \<open>
  Claim C6. When the response is successful and the parsed payload has no \<open>features\<close>
  that is an array, the call fails with the error \<open>Invalid GeoJSON response from ArcGIS\<close>,
  which is neither the error of a failure status nor a rejection, and returns no records.
\<close>

theorem invalid_geojson_error:
  assumes "ok res" and "json res = Inr geojson"
    and "\<forall>fs. ownProp geojson ''features'' \<noteq> Some (JArray fs)"
  shows "fetchFEMAShelters clock (Inr res) = Inl (Error ''Invalid GeoJSON response from ArcGIS'')
       \<and> (\<exists>rest. fetchFEMAShelters clock (Inr res) = Inl (Error (''Invalid GeoJSON response'' @ rest)))
       \<and> (\<forall>t. fetchFEMAShelters clock (Inr res)
                 \<noteq> Inl (Error (''Failed to fetch FEMA shelters: '' @ t)))
       \<and> (\<forall>t. fetchFEMAShelters clock (Inr res) \<noteq> Inl (Rejected t))
       \<and> (\<forall>out. fetchFEMAShelters clock (Inr res) \<noteq> Inr out)"
proof -
  have run: "fetchFEMAShelters clock (Inr res) = Inl (Error ''Invalid GeoJSON response from ArcGIS'')"
  proof (cases "ownProp geojson ''features''")
    case None
    with assms show ?thesis by (simp add: fetch_response)
  next
    case (Some v)
    with assms show ?thesis by (cases v) (simp_all add: fetch_response)
  qed
  show ?thesis unfolding run by simp
qed

theorem invalid_geojson_error_witness:
  "ok notSequenceResponse
   \<and> fetchFEMAShelters exampleClock (Inr notSequenceResponse)
       = Inl (Error ''Invalid GeoJSON response from ArcGIS'')"
proof -
  have k: "ok notSequenceResponse" by (simp add: notSequenceResponse_def)
  have j: "json notSequenceResponse =
      Inr (JObject [(''type'', JString ''FeatureCollection''),
                    (''features'', JObject [(''0'', miamiFeature)])])"
    by (simp add: notSequenceResponse_def)
  have n: "\<forall>fs. ownProp (JObject [(''type'', JString ''FeatureCollection''),
                    (''features'', JObject [(''0'', miamiFeature)])]) ''features'' \<noteq> Some (JArray fs)"
    by (simp add: ownProp_def)
  from invalid_geojson_error [OF k j n, of exampleClock] k show ?thesis by blast
qed

text \<open>
  Claim C7. When the response has no successful status, the call fails with an error
  whose message ends with the status text, and returns no records.
\<close>

theorem failed_fetch_error:
  assumes "\<not> ok res"
  shows "fetchFEMAShelters clock (Inr res) =
           Inl (Error (''Failed to fetch FEMA shelters: '' @ statusText res))
       \<and> (\<forall>out. fetchFEMAShelters clock (Inr res) \<noteq> Inr out)"
  using assms by (simp add: fetch_response)

theorem failed_fetch_error_witness:
  "\<not> ok unavailableResponse
   \<and> fetchFEMAShelters exampleClock (Inr unavailableResponse)
       = Inl (Error ''Failed to fetch FEMA shelters: Service Unavailable'')"
proof -
  have k: "\<not> ok unavailableResponse" by (simp add: unavailableResponse_def)
  have t: "statusText unavailableResponse = ''Service Unavailable''"
    by (simp add: unavailableResponse_def)
  from failed_fetch_error [OF k, of exampleClock] k show ?thesis unfolding t by simp
qed

text \<open>
  Claim C8. When feature \<open>i\<close> stands before feature \<open>j\<close> and both yield a record, the
  record of \<open>i\<close> stands before the record of \<open>j\<close> in the output.
\<close>

theorem input_order_preserved:
  assumes "fetchFEMAShelters clock (Inr res) = Inr out"
    and "json res = Inr geojson"
    and "ownProp geojson ''features'' = Some (JArray fs)"
    and "i < j" and "j < length fs"
    and "yieldsRecord (fs ! i)" and "yieldsRecord (fs ! j)"
  shows "outputIndex fs i < outputIndex fs j
       \<and> outputIndex fs j < length out
       \<and> recordFrom (fs ! i) (out ! outputIndex fs i)
       \<and> recordFrom (fs ! j) (out ! outputIndex fs j)"
proof -
  have out: "out = records clock 0 fs" using assms(1-3) by (rule fetch_features)
  have i: "i < length fs" using assms(4,5) by simp
  have "outputIndex fs i < outputIndex fs j" using assms(4,5,6) by (rule outputIndex_less)
  moreover have "outputIndex fs j < length out"
    unfolding out using assms(5,7) by (rule records_nth)
  moreover have "recordFrom (fs ! i) (out ! outputIndex fs i)"
    unfolding out using i assms(6) by (rule records_nth)
  moreover have "recordFrom (fs ! j) (out ! outputIndex fs j)"
    unfolding out using assms(5,7) by (rule records_nth)
  ultimately show ?thesis by simp
qed

theorem input_order_preserved_witness:
  "fetchFEMAShelters exampleClock (Inr exampleResponse) = Inr [miamiShelter, houstonShelter]
   \<and> yieldsRecord (exampleFeatures ! 1) \<and> yieldsRecord (exampleFeatures ! 3)
   \<and> outputIndex exampleFeatures 1 < outputIndex exampleFeatures 3
   \<and> recordFrom (exampleFeatures ! 1) ([miamiShelter, houstonShelter] ! 0)
   \<and> recordFrom (exampleFeatures ! 3) ([miamiShelter, houstonShelter] ! 1)"
proof -
  have ij: "(1::nat) < 3" by simp
  have j: "3 < length exampleFeatures" by (simp add: example_length)
  have yi: "yieldsRecord (exampleFeatures ! 1)"
    unfolding example_nth by (rule example_yields)
  have yj: "yieldsRecord (exampleFeatures ! 3)"
    unfolding example_nth by (rule example_yields)
  note inst = input_order_preserved [OF example_run example_json example_features ij j yi yj]
  from inst have "outputIndex exampleFeatures 1 < outputIndex exampleFeatures 3" by blast
  moreover from inst have "recordFrom (exampleFeatures ! 1) ([miamiShelter, houstonShelter] ! 0)"
    unfolding example_index by blast
  moreover from inst have "recordFrom (exampleFeatures ! 3) ([miamiShelter, houstonShelter] ! 1)"
    unfolding example_index by blast
  ultimately show ?thesis using yi yj example_run by blast
qed

text \<open>
  Claim C9. Two runs on the same outcome of \<open>fetch\<close>, at any two times, give the same
  outcome up to the \<open>last_updated\<close> of each record: the same error, or lists of records
  that are equal once \<open>last_updated\<close> is blanked.
\<close>

theorem same_output_but_last_updated:
  "timeless (fetchFEMAShelters clock fetched) = timeless (fetchFEMAShelters clock' fetched)"
proof (cases fetched)
  case (Inl e)
  then show ?thesis by (simp add: fetchFEMAShelters_def)
next
  case (Inr res)
  show ?thesis
    unfolding Inr fetch_response
    by (simp add: normalizeFeatures_time [of clock _ clock']
          split: sum.splits option.splits jvalue.splits)
qed

text \<open>
  Claim C10. When the payload passes the shape check and the call returns, the output has
  one record for each feature that yields one, hence at most as many records as there are
  features.
\<close>

theorem at_most_one_record_per_feature:
  assumes "fetchFEMAShelters clock (Inr res) = Inr out"
    and "json res = Inr geojson"
    and "ownProp geojson ''features'' = Some (JArray fs)"
  shows "length out = length (filter yieldsRecord fs) \<and> length out \<le> length fs"
proof -
  have "out = records clock 0 fs" using assms by (rule fetch_features)
  then show ?thesis by (simp add: length_records)
qed

theorem at_most_one_record_per_feature_witness:
  "fetchFEMAShelters exampleClock (Inr exampleResponse) = Inr [miamiShelter, houstonShelter]
   \<and> length [miamiShelter, houstonShelter] \<le> length exampleFeatures"
  using at_most_one_record_per_feature [OF example_run example_json example_features] example_run by blast

end
